theory Spec2Isabelle
  imports Complex_Main
begin

section \<open>Battery data loader and statistical analyzer (utils.py)\<close>

text \<open>
  A shallow embedding of \<^verbatim>\<open>src/utils.py\<close>. Python exceptions are values of
  \<open>py_error\<close>; a function that can raise returns \<open>py_error + 'a\<close> with \<open>Inl\<close> for the
  exception. A one-dimensional NumPy array of measurements is a list: of reals where a
  function is idealised to exact arithmetic, of float64 values (\<open>np_float\<close>) where NaN and
  rounding matter. A Python integer is an \<open>int\<close>.
\<close>

datatype py_error = IndexError | KeyError | ZeroDivisionError | FileNotFoundError | OtherError string

subsection \<open>NumPy floating-point values\<close>

text \<open>
  A \<^verbatim>\<open>np.float64\<close> value: a finite value, held as the real number it denotes (the sign
  of zero is not kept), or one of the IEEE 754 special values. The operations of this
  subsection are exact on finite values; the float64 operations, which round, follow in
  the next one. NumPy arithmetic never raises: division by zero and the square root of a negative
  number give \<open>inf\<close> or \<open>nan\<close> with a RuntimeWarning, and the module silences warnings
  (\<^verbatim>\<open>warnings.filterwarnings('ignore')\<close>).
\<close>

datatype np_float = Finite real | PosInf | NegInf | NaN

fun np_neg :: "np_float \<Rightarrow> np_float" where
  "np_neg (Finite a) = Finite (- a)"
| "np_neg PosInf = NegInf"
| "np_neg NegInf = PosInf"
| "np_neg NaN = NaN"

fun np_add :: "np_float \<Rightarrow> np_float \<Rightarrow> np_float" where
  "np_add NaN _ = NaN"
| "np_add _ NaN = NaN"
| "np_add (Finite a) (Finite b) = Finite (a + b)"
| "np_add (Finite a) PosInf = PosInf"
| "np_add (Finite a) NegInf = NegInf"
| "np_add PosInf (Finite b) = PosInf"
| "np_add NegInf (Finite b) = NegInf"
| "np_add PosInf PosInf = PosInf"
| "np_add NegInf NegInf = NegInf"
| "np_add PosInf NegInf = NaN"
| "np_add NegInf PosInf = NaN"

definition np_sub :: "np_float \<Rightarrow> np_float \<Rightarrow> np_float" where
  "np_sub a b = np_add a (np_neg b)"

definition signed_inf :: "real \<Rightarrow> np_float" where
  "signed_inf a = (if a = 0 then NaN else if 0 < a then PosInf else NegInf)"

fun np_mul :: "np_float \<Rightarrow> np_float \<Rightarrow> np_float" where
  "np_mul NaN _ = NaN"
| "np_mul _ NaN = NaN"
| "np_mul (Finite a) (Finite b) = Finite (a * b)"
| "np_mul (Finite a) PosInf = signed_inf a"
| "np_mul (Finite a) NegInf = signed_inf (- a)"
| "np_mul PosInf (Finite b) = signed_inf b"
| "np_mul NegInf (Finite b) = signed_inf (- b)"
| "np_mul PosInf PosInf = PosInf"
| "np_mul NegInf NegInf = PosInf"
| "np_mul PosInf NegInf = NegInf"
| "np_mul NegInf PosInf = NegInf"

fun np_div :: "np_float \<Rightarrow> np_float \<Rightarrow> np_float" where
  "np_div NaN _ = NaN"
| "np_div _ NaN = NaN"
| "np_div (Finite a) (Finite b) = (if b = 0 then signed_inf a else Finite (a / b))"
| "np_div (Finite a) PosInf = Finite 0"
| "np_div (Finite a) NegInf = Finite 0"
| "np_div PosInf (Finite b) = (if 0 \<le> b then PosInf else NegInf)"
| "np_div NegInf (Finite b) = (if 0 \<le> b then NegInf else PosInf)"
| "np_div PosInf PosInf = NaN"
| "np_div NegInf NegInf = NaN"
| "np_div PosInf NegInf = NaN"
| "np_div NegInf PosInf = NaN"

fun np_sqrt :: "np_float \<Rightarrow> np_float" where
  "np_sqrt (Finite a) = (if a < 0 then NaN else Finite (sqrt a))"
| "np_sqrt PosInf = PosInf"
| "np_sqrt NegInf = NaN"
| "np_sqrt NaN = NaN"

fun np_abs :: "np_float \<Rightarrow> np_float" where
  "np_abs (Finite a) = Finite \<bar>a\<bar>"
| "np_abs PosInf = PosInf"
| "np_abs NegInf = PosInf"
| "np_abs NaN = NaN"

fun np_less :: "np_float \<Rightarrow> np_float \<Rightarrow> bool" where
  "np_less NaN _ = False"
| "np_less _ NaN = False"
| "np_less (Finite a) (Finite b) = (a < b)"
| "np_less (Finite a) PosInf = True"
| "np_less (Finite a) NegInf = False"
| "np_less PosInf _ = False"
| "np_less NegInf (Finite b) = True"
| "np_less NegInf PosInf = True"
| "np_less NegInf NegInf = False"

fun is_finite :: "np_float \<Rightarrow> bool" where
  "is_finite (Finite a) = True"
| "is_finite PosInf = False"
| "is_finite NegInf = False"
| "is_finite NaN = False"

fun np_le :: "np_float \<Rightarrow> np_float \<Rightarrow> bool" where
  "np_le NaN _ = False"
| "np_le _ NaN = False"
| "np_le (Finite a) (Finite b) = (a \<le> b)"
| "np_le (Finite a) PosInf = True"
| "np_le (Finite a) NegInf = False"
| "np_le PosInf PosInf = True"
| "np_le PosInf (Finite b) = False"
| "np_le PosInf NegInf = False"
| "np_le NegInf _ = True"

subsection \<open>Rounding to float64\<close>

text \<open>
  The value a float64 operation stores for the exact result \<open>x\<close>: \<open>x\<close> rounded to the
  nearest number with a 53-bit significand, ties to even, with the smallest exponent
  \<open>-1022\<close> (subnormal numbers) and overflow to infinity from \<open>2 ^ 1024\<close> on. The sign of
  zero is not kept. \<open>ilog2 fuel x\<close> is \<open>\<lfloor>log\<^sub>2 x\<rfloor>\<close> for positive \<open>x\<close>, found in at most
  \<open>fuel\<close> halvings or doublings.
\<close>

definition round_half_even :: "real \<Rightarrow> int" where
  "round_half_even x =
     (let f = \<lfloor>x\<rfloor>; d = x - of_int f
      in if d < 1 / 2 then f else if 1 / 2 < d then f + 1 else if even f then f else f + 1)"

fun ilog2 :: "nat \<Rightarrow> real \<Rightarrow> int" where
  "ilog2 0 x = 0"
| "ilog2 (Suc fuel) x =
     (if 2 \<le> x then ilog2 fuel (x / 2) + 1
      else if x < 1 then ilog2 fuel (2 * x) - 1
      else 0)"

definition f64_exponent :: "real \<Rightarrow> int" where
  "f64_exponent x = max (ilog2 2200 \<bar>x\<bar>) (- 1022)"

definition f64_overflow :: real where
  "f64_overflow = 179769313486231590772930519078902473361797697894230657273430081157732675805500963132708477322407536021120113879871393357658789768814416622492847430639474124377767893424865485276302219601246094119453082952085005768838150682342462881473913110540827237163350510684586298239947245938479716304835356329624224137216"

definition f64_round :: "real \<Rightarrow> np_float" where
  "f64_round x =
     (if x = 0 then Finite 0
      else
        (let q = 2 powi (f64_exponent x - 52);
             r = of_int (round_half_even (x / q)) * q
         in if f64_overflow \<le> \<bar>r\<bar> then (if 0 < x then PosInf else NegInf) else Finite r))"

fun f64_rnd :: "np_float \<Rightarrow> np_float" where
  "f64_rnd (Finite x) = f64_round x"
| "f64_rnd PosInf = PosInf"
| "f64_rnd NegInf = NegInf"
| "f64_rnd NaN = NaN"

text \<open>A Python float literal, and the float64 sum, difference and product.\<close>

definition py_float :: "real \<Rightarrow> np_float" where
  "py_float x = f64_round x"

definition f64_add :: "np_float \<Rightarrow> np_float \<Rightarrow> np_float" where
  "f64_add a b = f64_rnd (np_add a b)"

definition f64_sub :: "np_float \<Rightarrow> np_float \<Rightarrow> np_float" where
  "f64_sub a b = f64_rnd (np_sub a b)"

definition f64_mul :: "np_float \<Rightarrow> np_float \<Rightarrow> np_float" where
  "f64_mul a b = f64_rnd (np_mul a b)"

subsection \<open>BatteryDataLoader.calculate\_lifetime\<close>

text \<open>
  \<^verbatim>\<open>np.where(cond)[0]\<close> on a one-dimensional array: the indices at which the condition
  holds, in increasing order.
\<close>

definition np_where :: "('a \<Rightarrow> bool) \<Rightarrow> 'a list \<Rightarrow> nat list" where
  "np_where P xs = filter (\<lambda>i. P (xs ! i)) [0..<length xs]"

text \<open>
  \<^verbatim>\<open>
  def calculate_lifetime(capacity, threshold=0.8):
      initial_capacity = capacity[0]
      target_capacity = threshold * initial_capacity
      below_threshold = np.where(capacity < target_capacity)[0]
      if len(below_threshold) > 0:
          return below_threshold[0]
      else:
          return len(capacity) - 1
  \<close>
  Reading \<^verbatim>\<open>capacity[0]\<close> of an empty array raises IndexError.
\<close>

definition calculate_lifetime :: "real list \<Rightarrow> real \<Rightarrow> py_error + int" where
  "calculate_lifetime capacity threshold =
     (case capacity of
        [] \<Rightarrow> Inl IndexError
      | initial_capacity # _ \<Rightarrow>
          (let target_capacity = threshold * initial_capacity;
               below_threshold = np_where (\<lambda>c. c < target_capacity) capacity
           in if length below_threshold > 0
              then Inr (int (hd below_threshold))
              else Inr (int (length capacity) - 1)))"

text \<open>
  The same function on float64 values, as the code runs it: a sample can be NaN or
  infinite, \<^verbatim>\<open>threshold * initial_capacity\<close> is the rounded float64 product, and
  \<^verbatim>\<open>capacity < target_capacity\<close> is NumPy's comparison, false at a NaN.
  \<open>calculate_lifetime\<close> above is its idealisation to real samples and an exact product.
\<close>

definition calculate_lifetime_f64 :: "np_float list \<Rightarrow> np_float \<Rightarrow> py_error + int" where
  "calculate_lifetime_f64 capacity threshold =
     (case capacity of
        [] \<Rightarrow> Inl IndexError
      | initial_capacity # _ \<Rightarrow>
          (let target_capacity = f64_mul threshold initial_capacity;
               below_threshold = np_where (\<lambda>c. np_less c target_capacity) capacity
           in if length below_threshold > 0
              then Inr (int (hd below_threshold))
              else Inr (int (length capacity) - 1)))"

subsection \<open>BatteryDataLoader.load\_battery\_data\<close>

text \<open>
  \<^verbatim>\<open>scipy.io.loadmat\<close> is the environment: a function from a path to either the exception
  it raises (FileNotFoundError for a missing file) or the dictionary it returns. Every
  variable of the dictionary is a two-dimensional array, kept here as the list of its
  columns, so that \<^verbatim>\<open>a[:, 0]\<close> is the first column and raises IndexError when the array
  has no column.
\<close>

type_synonym ndarray2 = "real list list"

type_synonym mat_dict = "string \<rightharpoonup> ndarray2"

type_synonym loadmat_fn = "string \<Rightarrow> py_error + mat_dict"

record battery_data =
  cycle :: "real list"
  capacity :: "real list"
  impedance :: "real list"

definition getitem :: "mat_dict \<Rightarrow> string \<Rightarrow> py_error + ndarray2" where
  "getitem d k = (case d k of None \<Rightarrow> Inl KeyError | Some a \<Rightarrow> Inr a)"

definition column0 :: "ndarray2 \<Rightarrow> py_error + real list" where
  "column0 a = (case a of [] \<Rightarrow> Inl IndexError | c # _ \<Rightarrow> Inr c)"

definition field0 :: "mat_dict \<Rightarrow> string \<Rightarrow> py_error + real list" where
  "field0 d k = (case getitem d k of Inl e \<Rightarrow> Inl e | Inr a \<Rightarrow> column0 a)"

text \<open>
  \<^verbatim>\<open>
  def load_battery_data(file_path):
      data = scipy.io.loadmat(file_path)
      cycles = data['cycle'][:, 0]
      capacity = data['capacity'][:, 0]
      if 'impedance' in data:
          impedance = data['impedance'][:, 0]
      else:
          impedance = np.zeros_like(capacity)
      return {'cycle': cycles, 'capacity': capacity, 'impedance': impedance}
  \<close>
\<close>

definition load_battery_data :: "loadmat_fn \<Rightarrow> string \<Rightarrow> py_error + battery_data" where
  "load_battery_data loadmat file_path =
     (case loadmat file_path of
        Inl e \<Rightarrow> Inl e
      | Inr data \<Rightarrow>
          (case field0 data ''cycle'' of
             Inl e \<Rightarrow> Inl e
           | Inr cycles \<Rightarrow>
               (case field0 data ''capacity'' of
                  Inl e \<Rightarrow> Inl e
                | Inr cap \<Rightarrow>
                    (if ''impedance'' \<in> dom data
                     then (case field0 data ''impedance'' of
                             Inl e \<Rightarrow> Inl e
                           | Inr imp \<Rightarrow>
                               Inr \<lparr>cycle = cycles, capacity = cap, impedance = imp\<rparr>)
                     else Inr \<lparr>cycle = cycles, capacity = cap,
                               impedance = replicate (length cap) 0\<rparr>))))"

subsection \<open>BatteryDataLoader.extract\_lifetimes\_from\_folder\<close>

text \<open>Python's \<^verbatim>\<open>str(i)\<close> on an integer and \<^verbatim>\<open>str.zfill(width)\<close>.\<close>

definition digit_char :: "nat \<Rightarrow> char" where
  "digit_char d = ''0123456789'' ! d"

fun str_nat :: "nat \<Rightarrow> string" where
  "str_nat n = (if n < 10 then [digit_char n] else str_nat (n div 10) @ [digit_char (n mod 10)])"

declare str_nat.simps [simp del]

definition str_int :: "int \<Rightarrow> string" where
  "str_int i = (if i < 0 then CHR ''-'' # str_nat (nat (- i)) else str_nat (nat i))"

definition zfill :: "nat \<Rightarrow> string \<Rightarrow> string" where
  "zfill width s =
     (case s of
        [] \<Rightarrow> replicate width CHR ''0''
      | c # r \<Rightarrow>
          if c = CHR ''+'' \<or> c = CHR ''-''
          then c # replicate (width - length s) CHR ''0'' @ r
          else replicate (width - length s) CHR ''0'' @ s)"

text \<open>
  \<^verbatim>\<open>
  file_name = f"B{str(i).zfill(4)}.mat"
  file_path = f"{folder_path}/{file_name}"
  \<close>
\<close>

definition file_name :: "int \<Rightarrow> string" where
  "file_name i = ''B'' @ zfill 4 (str_int i) @ ''.mat''"

definition file_path_of :: "string \<Rightarrow> int \<Rightarrow> string" where
  "file_path_of folder_path i = folder_path @ ''/'' @ file_name i"

text \<open>
  The body of the \<^verbatim>\<open>try\<close> block for unit \<open>i\<close>, run on the two lists built so far. It
  returns the exception that left the block, if any, with the lists as they are at that
  point:
  \<^verbatim>\<open>
  data = BatteryDataLoader.load_battery_data(file_path)
  lifetime = BatteryDataLoader.calculate_lifetime(data['capacity'])
  lifetimes.append(lifetime)
  initial_capacities.append(data['capacity'][0])
  \<close>
\<close>

type_synonym lifetimes_state = "int list \<times> real list"

definition try_body :: "loadmat_fn \<Rightarrow> string \<Rightarrow> int \<Rightarrow> lifetimes_state \<Rightarrow> py_error option \<times> lifetimes_state" where
  "try_body loadmat folder_path i st =
     (case st of (lifetimes, initial_capacities) \<Rightarrow>
        (case load_battery_data loadmat (file_path_of folder_path i) of
           Inl e \<Rightarrow> (Some e, st)
         | Inr data \<Rightarrow>
             (case calculate_lifetime (capacity data) (8 / 10) of
                Inl e \<Rightarrow> (Some e, st)
              | Inr lifetime \<Rightarrow>
                  (case capacity data of
                     [] \<Rightarrow> (Some IndexError, (lifetimes @ [lifetime], initial_capacities))
                   | c0 # _ \<Rightarrow>
                       (None, (lifetimes @ [lifetime], initial_capacities @ [c0]))))))"

text \<open>
  The loop over the unit indices: \<^verbatim>\<open>except FileNotFoundError: continue\<close> goes on with the
  next index, any other exception leaves the function.
\<close>

fun extract_loop :: "loadmat_fn \<Rightarrow> string \<Rightarrow> int list \<Rightarrow> lifetimes_state \<Rightarrow> py_error + lifetimes_state" where
  "extract_loop loadmat folder_path [] st = Inr st"
| "extract_loop loadmat folder_path (i # rest) st =
     (case try_body loadmat folder_path i st of
        (None, st') \<Rightarrow> extract_loop loadmat folder_path rest st'
      | (Some e, st') \<Rightarrow>
          if e = FileNotFoundError
          then extract_loop loadmat folder_path rest st'
          else Inl e)"

text \<open>
  \<^verbatim>\<open>
  def extract_lifetimes_from_folder(folder_path, num_batteries=10):
      lifetimes = []
      initial_capacities = []
      for i in range(1, num_batteries + 1):
          try: ...
          except FileNotFoundError:
              continue
      return np.array(lifetimes), np.array(initial_capacities)
  \<close>
\<close>

definition extract_lifetimes_from_folder :: "loadmat_fn \<Rightarrow> string \<Rightarrow> int \<Rightarrow> py_error + lifetimes_state" where
  "extract_lifetimes_from_folder loadmat folder_path num_batteries =
     extract_loop loadmat folder_path [1..num_batteries] ([], [])"

text \<open>
  What loading and reducing the record of unit \<open>i\<close> yields on its own: its lifetime and
  its initial capacity, or the exception raised.
\<close>

definition unit_lifetime :: "loadmat_fn \<Rightarrow> string \<Rightarrow> int \<Rightarrow> py_error + (int \<times> real)" where
  "unit_lifetime loadmat folder_path i =
     (case load_battery_data loadmat (file_path_of folder_path i) of
        Inl e \<Rightarrow> Inl e
      | Inr data \<Rightarrow>
          (case calculate_lifetime (capacity data) (8 / 10) of
             Inl e \<Rightarrow> Inl e
           | Inr lifetime \<Rightarrow> Inr (lifetime, hd (capacity data))))"

text \<open>
  The unit indices of \<open>1..n\<close> whose record file is found, and the units that raise no
  exception other than FileNotFoundError.
\<close>

definition found_units :: "loadmat_fn \<Rightarrow> string \<Rightarrow> int \<Rightarrow> int list" where
  "found_units loadmat folder_path n =
     filter (\<lambda>i. loadmat (file_path_of folder_path i) \<noteq> Inl FileNotFoundError) [1..n]"

definition no_other_failure :: "loadmat_fn \<Rightarrow> string \<Rightarrow> int \<Rightarrow> bool" where
  "no_other_failure loadmat folder_path i \<longleftrightarrow>
     unit_lifetime loadmat folder_path i = Inl FileNotFoundError
     \<or> \<not> isl (unit_lifetime loadmat folder_path i)"

text \<open>
  A concrete folder: units 1, 2 and 4 have well-formed records, the record of unit 6 lacks
  the \<^verbatim>\<open>capacity\<close> variable, and no other file exists.
\<close>

definition example_record :: "real list \<Rightarrow> mat_dict" where
  "example_record caps = [''cycle'' \<mapsto> [[0, 1, 2]], ''capacity'' \<mapsto> [caps]]"

definition example_loadmat :: loadmat_fn where
  "example_loadmat p =
     (if p = ''data/B0001.mat'' then Inr (example_record [2, 19 / 10, 15 / 10])
      else if p = ''data/B0002.mat'' then Inr (example_record [3, 2, 1])
      else if p = ''data/B0004.mat'' then Inr (example_record [1, 1, 1])
      else if p = ''data/B0006.mat'' then Inr [''cycle'' \<mapsto> [[0]]]
      else Inl FileNotFoundError)"

subsection \<open>StatisticalAnalyzer.fit\_weibull\_distribution\<close>

text \<open>
  \<^verbatim>\<open>
  def fit_weibull_distribution(data):
      params = weibull_min.fit(data, floc=0)
      k, loc, scale = params
      return {'k': k, 'lambda': scale}
  \<close>
  \<^verbatim>\<open>scipy.stats.weibull_min.fit\<close> is a parameter: a function from the sample and the fixed
  location \<^verbatim>\<open>floc\<close> to either the exception it raises or the triple of shape, location
  and scale it returns. The returned dictionary is the pair of its two values.
\<close>

type_synonym weibull_fit_fn = "np_float list \<Rightarrow> np_float \<Rightarrow> py_error + (np_float \<times> np_float \<times> np_float)"

definition fit_weibull_distribution :: "weibull_fit_fn \<Rightarrow> np_float list \<Rightarrow> py_error + (np_float \<times> np_float)" where
  "fit_weibull_distribution weibull_min_fit data =
     (case weibull_min_fit data (Finite 0) of
        Inl e \<Rightarrow> Inl e
      | Inr (k, loc, scale) \<Rightarrow> Inr (k, scale))"

text \<open>
  Two fit routines for concrete inputs. \<open>penalising_fit\<close> never raises: it stands for
  an optimiser that penalises the observations outside the support instead of rejecting
  them. \<open>rejecting_fit\<close> raises a fit error on an empty sample and on a sample
  with a value that is not positive.
\<close>

definition penalising_fit :: weibull_fit_fn where
  "penalising_fit data floc = Inr (Finite 2, floc, Finite 3)"

definition rejecting_fit :: weibull_fit_fn where
  "rejecting_fit data floc =
     (if data = [] \<or> (\<exists>x\<in>set data. \<not> np_less (Finite 0) x)
      then Inl (OtherError ''FitError'')
      else Inr (Finite 2, floc, Finite 3))"

subsection \<open>StatisticalAnalyzer.bayesian\_update\<close>

text \<open>
  \<^verbatim>\<open>
  def bayesian_update(prior_alpha, prior_beta, successes, trials):
      posterior_alpha = prior_alpha + successes
      posterior_beta = prior_beta + trials - successes
      return posterior_alpha, posterior_beta
  \<close>
  The function only adds and subtracts, for whatever numbers it is given; the model is
  polymorphic in the number type (Python integers are \<open>int\<close>, exact reals are \<open>real\<close>).
\<close>

definition bayesian_update :: "'a::{plus,minus} \<Rightarrow> 'a \<Rightarrow> 'a \<Rightarrow> 'a \<Rightarrow> 'a \<times> 'a" where
  "bayesian_update prior_alpha prior_beta successes trials =
     (let posterior_alpha = prior_alpha + successes;
          posterior_beta = prior_beta + trials - successes
      in (posterior_alpha, posterior_beta))"

text \<open>
  Python floats as an instance of the number type: \<open>+\<close> and \<open>-\<close> are the float64
  operations, rounding included.
\<close>

datatype float64 = Float64 np_float

fun float64_val :: "float64 \<Rightarrow> np_float" where
  "float64_val (Float64 a) = a"

instantiation float64 :: "{plus,minus}"
begin

definition plus_float64 :: "float64 \<Rightarrow> float64 \<Rightarrow> float64" where
  "plus_float64 a b = Float64 (f64_add (float64_val a) (float64_val b))"

definition minus_float64 :: "float64 \<Rightarrow> float64 \<Rightarrow> float64" where
  "minus_float64 a b = Float64 (f64_sub (float64_val a) (float64_val b))"

instance ..

end

subsection \<open>StatisticalAnalyzer.confidence\_interval\_proportion\<close>

text \<open>
  \<^verbatim>\<open>
  def confidence_interval_proportion(successes, trials, confidence=0.95):
      p_hat = successes / trials
      z_alpha = norm.ppf(1 - (1 - confidence) / 2)
      se = np.sqrt(p_hat * (1 - p_hat) / trials)
      lower = p_hat - z_alpha * se
      upper = p_hat + z_alpha * se
      return lower, upper
  \<close>
  The counts are Python integers, so \<^verbatim>\<open>successes / trials\<close> raises ZeroDivisionError for
  \<^verbatim>\<open>trials = 0\<close>. The quantile function \<^verbatim>\<open>scipy.stats.norm.ppf\<close> is a parameter.
\<close>

definition confidence_interval_proportion ::
  "(real \<Rightarrow> np_float) \<Rightarrow> int \<Rightarrow> int \<Rightarrow> real \<Rightarrow> py_error + (np_float \<times> np_float)" where
  "confidence_interval_proportion norm_ppf successes trials confidence =
     (if trials = 0 then Inl ZeroDivisionError
      else
        (let p_hat = real_of_int successes / real_of_int trials;
             z_alpha = norm_ppf (1 - (1 - confidence) / 2);
             se = np_sqrt (Finite (p_hat * (1 - p_hat) / real_of_int trials));
             lower = np_sub (Finite p_hat) (np_mul z_alpha se);
             upper = np_add (Finite p_hat) (np_mul z_alpha se)
         in Inr (lower, upper)))"

subsection \<open>StatisticalAnalyzer.hypothesis\_test\_proportion\<close>

text \<open>
  \<^verbatim>\<open>
  def hypothesis_test_proportion(successes, trials, p0, alpha=0.05, alternative='greater'):
      p_hat = successes / trials
      se = np.sqrt(p0 * (1 - p0) / trials)
      z_stat = (p_hat - p0) / se
      if alternative == 'greater':
          p_value = 1 - norm.cdf(z_stat)
          reject = p_value < alpha
      elif alternative == 'less':
          p_value = norm.cdf(z_stat)
          reject = p_value < alpha
      else:
          p_value = 2 * (1 - norm.cdf(abs(z_stat)))
          reject = p_value < alpha
      return {'z_statistic': z_stat, 'p_value': p_value, 'reject_H0': reject}
  \<close>
  The counts are Python integers and \<^verbatim>\<open>p0\<close>, \<^verbatim>\<open>alpha\<close> Python floats. The standard error
  is a \<^verbatim>\<open>np.float64\<close>, so the division that computes \<^verbatim>\<open>z_stat\<close> is NumPy's. The
  distribution function \<^verbatim>\<open>scipy.stats.norm.cdf\<close> is a parameter.
\<close>

record test_result =
  z_statistic :: np_float
  p_value :: np_float
  reject_H0 :: bool

definition hypothesis_test_proportion ::
  "(np_float \<Rightarrow> np_float) \<Rightarrow> int \<Rightarrow> int \<Rightarrow> real \<Rightarrow> real \<Rightarrow> string \<Rightarrow> py_error + test_result" where
  "hypothesis_test_proportion norm_cdf successes trials p0 alpha alternative =
     (if trials = 0 then Inl ZeroDivisionError
      else
        (let p_hat = real_of_int successes / real_of_int trials;
             se = np_sqrt (Finite (p0 * (1 - p0) / real_of_int trials));
             z_stat = np_div (Finite (p_hat - p0)) se;
             p_val =
               (if alternative = ''greater'' then np_sub (Finite 1) (norm_cdf z_stat)
                else if alternative = ''less'' then norm_cdf z_stat
                else np_mul (Finite 2) (np_sub (Finite 1) (norm_cdf (np_abs z_stat))));
             reject = np_less p_val (Finite alpha)
         in Inr \<lparr>z_statistic = z_stat, p_value = p_val, reject_H0 = reject\<rparr>))"

text \<open>
  A stand-in for \<^verbatim>\<open>norm.cdf\<close> on concrete inputs: exact at the special values
  (\<open>cdf(inf) = 1\<close>, \<open>cdf(-inf) = 0\<close>, \<open>cdf(nan) = nan\<close>) and the unit step at finite ones.
\<close>

fun step_cdf :: "np_float \<Rightarrow> np_float" where
  "step_cdf (Finite a) = (if a < 0 then Finite 0 else Finite 1)"
| "step_cdf PosInf = Finite 1"
| "step_cdf NegInf = Finite 0"
| "step_cdf NaN = NaN"

section \<open>Properties\<close>

subsection \<open>Index search\<close>

lemma filter_upt_first:
  "filter P [0..<n] = i # rest \<Longrightarrow> P i \<and> i < n \<and> (\<forall>j<i. \<not> P j)"
proof (induction n arbitrary: rest)
  case 0
  then show ?case by simp
next
  case (Suc n)
  show ?case
  proof (cases "filter P [0..<n]")
    case Nil
    then have none: "\<forall>j<n. \<not> P j"
      by (auto simp: filter_empty_conv)
    from Suc.prems Nil have "P n \<and> i = n"
      by (simp split: if_splits)
    with none show ?thesis by simp
  next
    case (Cons k ks)
    with Suc.prems have "k = i"
      by simp
    with Cons have "filter P [0..<n] = i # ks"
      by simp
    from Suc.IH [OF this] show ?thesis
      by (blast intro: less_SucI)
  qed
qed

lemma np_where_first:
  assumes "np_where P xs = i # rest"
  shows "P (xs ! i) \<and> i < length xs \<and> (\<forall>j<i. \<not> P (xs ! j))"
proof -
  from assms have "filter (\<lambda>i. P (xs ! i)) [0..<length xs] = i # rest"
    by (simp add: np_where_def)
  from filter_upt_first [OF this] show ?thesis .
qed

lemma np_where_empty_iff: "np_where P xs = [] \<longleftrightarrow> (\<forall>x\<in>set xs. \<not> P x)"
proof -
  have "np_where P xs = [] \<longleftrightarrow> (\<forall>i<length xs. \<not> P (xs ! i))"
    by (auto simp: np_where_def filter_empty_conv)
  also have "\<dots> \<longleftrightarrow> (\<forall>x\<in>set xs. \<not> P x)"
    by (simp add: all_set_conv_all_nth)
  finally show ?thesis .
qed

lemma calculate_lifetime_Cons:
  "calculate_lifetime (c # cs) t =
     (case np_where (\<lambda>x. x < t * c) (c # cs) of
        [] \<Rightarrow> Inr (int (length cs))
      | i # _ \<Rightarrow> Inr (int i))"
  by (simp add: calculate_lifetime_def Let_def split: list.split)

subsection \<open>calculate\_lifetime\<close>

lemma f64_overflow_eq: "f64_overflow = 2 ^ 1024"
  by (simp add: f64_overflow_def)

lemma calculate_lifetime_f64_Cons:
  "calculate_lifetime_f64 (c # cs) t =
     (case np_where (\<lambda>x. np_less x (f64_mul t c)) (c # cs) of
        [] \<Rightarrow> Inr (int (length cs))
      | i # _ \<Rightarrow> Inr (int i))"
  by (simp add: calculate_lifetime_f64_def Let_def split: list.split)

lemma np_less_not_NaN: "np_less a b \<Longrightarrow> a \<noteq> NaN \<and> b \<noteq> NaN"
  by (cases a; cases b) auto

lemma not_np_less_np_le: "\<not> np_less x t \<Longrightarrow> t \<noteq> NaN \<Longrightarrow> x = NaN \<or> np_le t x"
  by (cases x; cases t) auto

text \<open>
  Claim C1, as stated: for a non-empty capacity sequence whose first element is above
  \<open>threshold * capacity[0]\<close> and which has an element strictly below it,
  \<open>calculate_lifetime\<close> returns the index \<open>i\<close> of the first such element, with
  \<open>capacity[j] \<ge> threshold * capacity[0]\<close> for all \<open>j < i\<close>. It fails on float64 arrays in
  two ways. On \<open>[2.0, nan, 1.0]\<close> with threshold 0.8 the result is 2, and the element at
  index 1 is not \<open>\<ge>\<close> the target, since every comparison with NaN is false. On
  \<open>[0.625, 0.5, 0.625]\<close> with threshold 0.8 the element 0.5 is below the exact product,
  but the float64 product rounds to 0.5, nothing is below it, and the result is the last
  index 2, not 1.
\<close>

theorem calculate_lifetime_f64_counterexample:
  "np_less (f64_mul (py_float (8 / 10)) (Finite 2)) (Finite 2)
   \<and> np_less (Finite 1) (f64_mul (py_float (8 / 10)) (Finite 2))
   \<and> calculate_lifetime_f64 [Finite 2, NaN, Finite 1] (py_float (8 / 10)) = Inr 2
   \<and> \<not> np_le (f64_mul (py_float (8 / 10)) (Finite 2)) ([Finite 2, NaN, Finite 1] ! 1)
   \<and> np_less (Finite (1 / 2)) (np_mul (py_float (8 / 10)) (Finite (5 / 8)))
   \<and> calculate_lifetime_f64 [Finite (5 / 8), Finite (1 / 2), Finite (5 / 8)] (py_float (8 / 10)) = Inr 2"
  by code_simp

text \<open>
  Claim C1, amended. Let \<open>target\<close> be the float64 product \<open>threshold * capacity[0]\<close> as the
  code computes it. For a non-empty capacity array whose first element is above \<open>target\<close>
  and which has an element strictly below \<open>target\<close>, \<open>calculate_lifetime\<close> returns the index
  \<open>i\<close> of the first such element: \<open>capacity[i] < target\<close>, and every \<open>capacity[j]\<close> with
  \<open>j < i\<close> is NaN or \<open>\<ge> target\<close> (so \<open>i > 0\<close>). In particular
  \<open>calculate_lifetime([2.0, 1.9, 1.8, 1.5, 1.0], threshold=0.8)\<close> returns 3.
\<close>

theorem calculate_lifetime_f64_first_crossing:
  "(caps \<noteq> [] \<and> np_less (f64_mul threshold (hd caps)) (hd caps)
      \<and> (\<exists>x\<in>set caps. np_less x (f64_mul threshold (hd caps)))
      \<longrightarrow> (\<exists>i. calculate_lifetime_f64 caps threshold = Inr (int i) \<and> 0 < i \<and> i < length caps
             \<and> np_less (caps ! i) (f64_mul threshold (caps ! 0))
             \<and> (\<forall>j<i. caps ! j = NaN \<or> np_le (f64_mul threshold (caps ! 0)) (caps ! j))))
   \<and> calculate_lifetime_f64
         [py_float 2, py_float (19 / 10), py_float (18 / 10), py_float (15 / 10), py_float 1]
         (py_float (8 / 10)) = Inr 3"
proof (intro conjI impI)
  assume hyp: "caps \<noteq> [] \<and> np_less (f64_mul threshold (hd caps)) (hd caps)
      \<and> (\<exists>x\<in>set caps. np_less x (f64_mul threshold (hd caps)))"
  then obtain c cs where caps: "caps = c # cs"
    by (cases caps) auto
  let ?t = "f64_mul threshold c"
  let ?P = "\<lambda>x. np_less x ?t"
  from hyp caps have above: "np_less ?t c"
    by simp
  then have t: "?t \<noteq> NaN"
    by (blast dest: np_less_not_NaN)
  from hyp caps have "np_where ?P caps \<noteq> []"
    by (simp only: np_where_empty_iff list.sel) blast
  then obtain i rest where w: "np_where ?P caps = i # rest"
    by (cases "np_where ?P caps") auto
  from np_where_first [OF w]
  have first: "?P (caps ! i)" "i < length caps" "\<forall>j<i. \<not> ?P (caps ! j)"
    by blast+
  have "\<not> np_less c ?t"
    using above by (cases c; cases ?t) auto
  with first(1) caps have "i \<noteq> 0"
    by (cases i) auto
  moreover from w caps have "calculate_lifetime_f64 caps threshold = Inr (int i)"
    by (simp add: calculate_lifetime_f64_Cons)
  moreover from first(3) t have "\<forall>j<i. caps ! j = NaN \<or> np_le ?t (caps ! j)"
    by (blast dest: not_np_less_np_le)
  ultimately show "\<exists>i. calculate_lifetime_f64 caps threshold = Inr (int i) \<and> 0 < i \<and> i < length caps
             \<and> np_less (caps ! i) (f64_mul threshold (caps ! 0))
             \<and> (\<forall>j<i. caps ! j = NaN \<or> np_le (f64_mul threshold (caps ! 0)) (caps ! j))"
    using first(1,2) caps by (intro exI [of _ i]) simp
next
  show "calculate_lifetime_f64
         [py_float 2, py_float (19 / 10), py_float (18 / 10), py_float (15 / 10), py_float 1]
         (py_float (8 / 10)) = Inr 3"
    by code_simp
qed

theorem calculate_lifetime_f64_first_crossing_witness:
  "np_less (f64_mul (py_float (8 / 10)) (hd [Finite 2, NaN, Finite 1])) (hd [Finite 2, NaN, Finite 1])
   \<and> (\<exists>x\<in>set [Finite 2, NaN, Finite 1]. np_less x (f64_mul (py_float (8 / 10)) (hd [Finite 2, NaN, Finite 1])))
   \<and> (\<exists>i. calculate_lifetime_f64 [Finite 2, NaN, Finite 1] (py_float (8 / 10)) = Inr (int i)
          \<and> 0 < i \<and> i < length [Finite 2, NaN, Finite 1]
          \<and> np_less ([Finite 2, NaN, Finite 1] ! i) (f64_mul (py_float (8 / 10)) ([Finite 2, NaN, Finite 1] ! 0))
          \<and> (\<forall>j<i. [Finite 2, NaN, Finite 1] ! j = NaN
                \<or> np_le (f64_mul (py_float (8 / 10)) ([Finite 2, NaN, Finite 1] ! 0)) ([Finite 2, NaN, Finite 1] ! j)))"
proof -
  have h: "[Finite 2, NaN, Finite 1] \<noteq> []
      \<and> np_less (f64_mul (py_float (8 / 10)) (hd [Finite 2, NaN, Finite 1])) (hd [Finite 2, NaN, Finite 1])
      \<and> (\<exists>x\<in>set [Finite 2, NaN, Finite 1]. np_less x (f64_mul (py_float (8 / 10)) (hd [Finite 2, NaN, Finite 1])))"
    by code_simp
  from calculate_lifetime_f64_first_crossing [of "[Finite 2, NaN, Finite 1]" "py_float (8 / 10)"] h
  show ?thesis
    by blast
qed



text \<open>
  Claim C9. \<open>calculate_lifetime\<close> reads \<open>capacity[0]\<close> before it scans, so on an empty
  sequence it fails with IndexError; for every non-empty sequence and any threshold it
  returns an integer index between 0 and \<open>len(capacity) - 1\<close> inclusive.
\<close>

theorem calculate_lifetime_index_range:
  "calculate_lifetime [] threshold = Inl IndexError \<and>
   (caps \<noteq> [] \<longrightarrow>
      (\<exists>i. calculate_lifetime caps threshold = Inr i \<and> 0 \<le> i \<and> i \<le> int (length caps) - 1))"
proof (intro conjI impI)
  show "calculate_lifetime [] threshold = Inl IndexError"
    by (simp add: calculate_lifetime_def)
next
  assume "caps \<noteq> []"
  then obtain c cs where caps: "caps = c # cs"
    by (cases caps) auto
  let ?P = "\<lambda>x. x < threshold * c"
  show "\<exists>i. calculate_lifetime caps threshold = Inr i \<and> 0 \<le> i \<and> i \<le> int (length caps) - 1"
  proof (cases "np_where ?P caps")
    case Nil
    with caps show ?thesis
      by (simp add: calculate_lifetime_Cons)
  next
    case (Cons k ks)
    from np_where_first [OF Cons] have "k < length caps"
      by blast
    moreover from Cons caps have "calculate_lifetime caps threshold = Inr (int k)"
      by (simp add: calculate_lifetime_Cons)
    ultimately show ?thesis
      by (intro exI [of _ "int k"]) simp
  qed
qed

theorem calculate_lifetime_index_range_witness:
  "\<exists>i. calculate_lifetime [1, 1 / 2] (8 / 10) = Inr i \<and> 0 \<le> i \<and> i \<le> int (length [1, 1 / 2 :: real]) - 1"
  using calculate_lifetime_index_range [of "8 / 10" "[1, 1 / 2]"]
  by simp

text \<open>
  The censoring convention and the index range hold on float64 values as well, whatever
  the product rounds to and wherever a NaN stands.
\<close>

lemma calculate_lifetime_f64_never_crossed:
  assumes "caps \<noteq> []" and "\<forall>x\<in>set caps. \<not> np_less x (f64_mul threshold (hd caps))"
  shows "calculate_lifetime_f64 caps threshold = Inr (int (length caps) - 1)"
proof -
  from assms(1) obtain c cs where caps: "caps = c # cs"
    by (cases caps) auto
  with assms(2) have "np_where (\<lambda>x. np_less x (f64_mul threshold c)) caps = []"
    by (simp only: np_where_empty_iff list.sel)
  with caps show ?thesis
    by (simp add: calculate_lifetime_f64_Cons)
qed

lemma calculate_lifetime_f64_index_range:
  assumes "caps \<noteq> []"
  shows "\<exists>i. calculate_lifetime_f64 caps threshold = Inr i \<and> 0 \<le> i \<and> i \<le> int (length caps) - 1"
proof -
  from assms obtain c cs where caps: "caps = c # cs"
    by (cases caps) auto
  let ?P = "\<lambda>x. np_less x (f64_mul threshold c)"
  show ?thesis
  proof (cases "np_where ?P caps")
    case Nil
    with caps show ?thesis
      by (simp add: calculate_lifetime_f64_Cons)
  next
    case (Cons k ks)
    from np_where_first [OF Cons] have "k < length caps"
      by blast
    moreover from Cons caps have "calculate_lifetime_f64 caps threshold = Inr (int k)"
      by (simp add: calculate_lifetime_f64_Cons)
    ultimately show ?thesis
      by (intro exI [of _ "int k"]) simp
  qed
qed

subsection \<open>extract\_lifetimes\_from\_folder\<close>

lemma calculate_lifetime_Inr_nonempty:
  "calculate_lifetime caps t = Inr l \<Longrightarrow> caps \<noteq> []"
  by (auto simp: calculate_lifetime_def)

lemma calculate_lifetime_Inl:
  "calculate_lifetime caps t = Inl e \<Longrightarrow> e = IndexError"
  by (cases caps) (auto simp: calculate_lifetime_def Let_def split: if_splits)

lemma field0_Inl:
  "field0 d k = Inl e \<Longrightarrow> e = KeyError \<or> e = IndexError"
  by (auto simp: field0_def getitem_def column0_def split: option.splits list.splits)

lemma load_battery_data_not_found:
  "load_battery_data loadmat p = Inl FileNotFoundError \<longleftrightarrow> loadmat p = Inl FileNotFoundError"
  by (auto simp: load_battery_data_def split: sum.splits if_splits dest: field0_Inl)

lemma unit_lifetime_not_found:
  "unit_lifetime loadmat folder i = Inl FileNotFoundError
     \<longleftrightarrow> loadmat (file_path_of folder i) = Inl FileNotFoundError"
proof
  assume u: "unit_lifetime loadmat folder i = Inl FileNotFoundError"
  show "loadmat (file_path_of folder i) = Inl FileNotFoundError"
  proof (cases "load_battery_data loadmat (file_path_of folder i)")
    case (Inl e)
    with u have "e = FileNotFoundError"
      by (simp add: unit_lifetime_def)
    with Inl show ?thesis
      by (simp add: load_battery_data_not_found)
  next
    case (Inr d)
    with u have "calculate_lifetime (capacity d) (8 / 10) = Inl FileNotFoundError"
      by (simp add: unit_lifetime_def split: sum.splits)
    from calculate_lifetime_Inl [OF this] show ?thesis
      by simp
  qed
next
  assume "loadmat (file_path_of folder i) = Inl FileNotFoundError"
  then have "load_battery_data loadmat (file_path_of folder i) = Inl FileNotFoundError"
    by (simp add: load_battery_data_not_found)
  then show "unit_lifetime loadmat folder i = Inl FileNotFoundError"
    by (simp add: unit_lifetime_def)
qed

lemma try_body_unit:
  "try_body loadmat folder i (ls, cs) =
     (case unit_lifetime loadmat folder i of
        Inl e \<Rightarrow> (Some e, (ls, cs))
      | Inr (l, c) \<Rightarrow> (None, (ls @ [l], cs @ [c])))"
  by (auto simp: try_body_def unit_lifetime_def
           split: sum.splits list.splits dest: calculate_lifetime_Inr_nonempty)

lemma extract_loop_Cons:
  "extract_loop loadmat folder (i # rest) (ls, cs) =
     (case unit_lifetime loadmat folder i of
        Inl e \<Rightarrow> if e = FileNotFoundError then extract_loop loadmat folder rest (ls, cs) else Inl e
      | Inr (l, c) \<Rightarrow> extract_loop loadmat folder rest (ls @ [l], cs @ [c]))"
  by (simp add: try_body_unit split: sum.splits prod.splits)

lemma extract_loop_skips:
  assumes "\<forall>i\<in>set ixs. no_other_failure loadmat folder i"
  shows "extract_loop loadmat folder ixs (ls, cs) =
           Inr (ls @ map (\<lambda>i. fst (projr (unit_lifetime loadmat folder i)))
                       (filter (\<lambda>i. loadmat (file_path_of folder i) \<noteq> Inl FileNotFoundError) ixs),
                cs @ map (\<lambda>i. snd (projr (unit_lifetime loadmat folder i)))
                       (filter (\<lambda>i. loadmat (file_path_of folder i) \<noteq> Inl FileNotFoundError) ixs))"
  using assms
proof (induction ixs arbitrary: ls cs)
  case Nil
  show ?case by simp
next
  case (Cons i ixs)
  from Cons.prems have here: "no_other_failure loadmat folder i"
    and rest: "\<forall>j\<in>set ixs. no_other_failure loadmat folder j"
    by simp_all
  show ?case
  proof (cases "unit_lifetime loadmat folder i")
    case (Inl e)
    with here have u: "unit_lifetime loadmat folder i = Inl FileNotFoundError"
      by (simp add: no_other_failure_def)
    then have missing: "loadmat (file_path_of folder i) = Inl FileNotFoundError"
      by (simp add: unit_lifetime_not_found)
    have "extract_loop loadmat folder (i # ixs) (ls, cs) = extract_loop loadmat folder ixs (ls, cs)"
      unfolding extract_loop_Cons by (simp add: u)
    with Cons.IH [OF rest, of ls cs] missing show ?thesis
      by simp
  next
    case (Inr r)
    obtain l c where r: "r = (l, c)"
      by (cases r)
    from Inr have "unit_lifetime loadmat folder i \<noteq> Inl FileNotFoundError"
      by simp
    then have found: "loadmat (file_path_of folder i) \<noteq> Inl FileNotFoundError"
      by (simp add: unit_lifetime_not_found)
    have "extract_loop loadmat folder (i # ixs) (ls, cs)
            = extract_loop loadmat folder ixs (ls @ [l], cs @ [c])"
      unfolding append_Cons extract_loop_Cons by (simp add: Inr r)
    with Cons.IH [OF rest, of "ls @ [l]" "cs @ [c]"] found Inr r show ?thesis
      by simp
  qed
qed

lemma extract_loop_propagates:
  assumes "\<forall>j\<in>set pre. no_other_failure loadmat folder j"
    and "unit_lifetime loadmat folder i = Inl e" and "e \<noteq> FileNotFoundError"
  shows "extract_loop loadmat folder (pre @ i # post) (ls, cs) = Inl e"
  using assms(1)
proof (induction pre arbitrary: ls cs)
  case Nil
  from assms(2,3) show ?case
    unfolding append_Nil extract_loop_Cons by simp
next
  case (Cons j pre)
  from Cons.prems have here: "no_other_failure loadmat folder j"
    and rest: "\<forall>k\<in>set pre. no_other_failure loadmat folder k"
    by simp_all
  show ?case
  proof (cases "unit_lifetime loadmat folder j")
    case (Inl e')
    with here have "unit_lifetime loadmat folder j = Inl FileNotFoundError"
      by (simp add: no_other_failure_def)
    then have "extract_loop loadmat folder ((j # pre) @ i # post) (ls, cs)
                 = extract_loop loadmat folder (pre @ i # post) (ls, cs)"
      unfolding append_Cons extract_loop_Cons by simp
    with Cons.IH [OF rest, of ls cs] show ?thesis
      by simp
  next
    case (Inr r)
    obtain l c where r: "r = (l, c)"
      by (cases r)
    have "extract_loop loadmat folder ((j # pre) @ i # post) (ls, cs)
            = extract_loop loadmat folder (pre @ i # post) (ls @ [l], cs @ [c])"
      unfolding append_Cons extract_loop_Cons by (simp add: Inr r)
    with Cons.IH [OF rest, of "ls @ [l]" "cs @ [c]"] show ?thesis
      by simp
  qed
qed

lemma example_paths:
  "file_path_of ''data'' 1 = ''data/B0001.mat''"
  "file_path_of ''data'' 2 = ''data/B0002.mat''"
  "file_path_of ''data'' 3 = ''data/B0003.mat''"
  "file_path_of ''data'' 4 = ''data/B0004.mat''"
  "file_path_of ''data'' 5 = ''data/B0005.mat''"
  "file_path_of ''data'' 6 = ''data/B0006.mat''"
  by (simp_all add: file_path_of_def file_name_def zfill_def str_int_def str_nat.simps digit_char_def numeral_3_eq_3)

lemma example_units:
  "unit_lifetime example_loadmat ''data'' 1 = Inr (2, 2)"
  "unit_lifetime example_loadmat ''data'' 2 = Inr (1, 3)"
  "unit_lifetime example_loadmat ''data'' 3 = Inl FileNotFoundError"
  "unit_lifetime example_loadmat ''data'' 4 = Inr (2, 1)"
  "unit_lifetime example_loadmat ''data'' 5 = Inl FileNotFoundError"
  "unit_lifetime example_loadmat ''data'' 6 = Inl KeyError"
  by (simp_all add: unit_lifetime_def example_paths example_loadmat_def example_record_def
        load_battery_data_def field0_def getitem_def column0_def
        calculate_lifetime_def np_where_def upt_conv_Cons)

lemma upto_1_5: "[1..5] = [1, 2, 3, 4, 5 :: int]"
  by (simp add: upto_rec1)

text \<open>
  Claim C4. \<open>extract_lifetimes_from_folder\<close> iterates the unit indices \<open>1..count\<close>
  inclusive. When no unit raises anything but FileNotFoundError, it returns the lifetimes
  and initial capacities of exactly the units whose record file is found, in order. The
  first other exception raised while loading or reducing a record leaves the function.
  With \<open>count = 5\<close> and only units 1, 2 and 4 present it returns the three lifetimes of
  these units.
\<close>

theorem extract_lifetimes_skips_missing_only:
  "((\<forall>i\<in>set [1..n]. no_other_failure loadmat folder i) \<longrightarrow>
      extract_lifetimes_from_folder loadmat folder n =
        Inr (map (\<lambda>i. fst (projr (unit_lifetime loadmat folder i))) (found_units loadmat folder n),
             map (\<lambda>i. snd (projr (unit_lifetime loadmat folder i))) (found_units loadmat folder n)))
   \<and> (1 \<le> i \<and> i \<le> n \<and> (\<forall>j\<in>set [1..i - 1]. no_other_failure loadmat folder j)
        \<and> unit_lifetime loadmat folder i = Inl e \<and> e \<noteq> FileNotFoundError \<longrightarrow>
      extract_lifetimes_from_folder loadmat folder n = Inl e)
   \<and> (unit_lifetime loadmat folder 1 = Inr (l1, c1)
        \<and> unit_lifetime loadmat folder 2 = Inr (l2, c2)
        \<and> loadmat (file_path_of folder 3) = Inl FileNotFoundError
        \<and> unit_lifetime loadmat folder 4 = Inr (l4, c4)
        \<and> loadmat (file_path_of folder 5) = Inl FileNotFoundError \<longrightarrow>
      extract_lifetimes_from_folder loadmat folder 5 = Inr ([l1, l2, l4], [c1, c2, c4]))"
proof (intro conjI impI)
  assume "\<forall>i\<in>set [1..n]. no_other_failure loadmat folder i"
  from extract_loop_skips [OF this, of "[]" "[]"]
  show "extract_lifetimes_from_folder loadmat folder n =
        Inr (map (\<lambda>i. fst (projr (unit_lifetime loadmat folder i))) (found_units loadmat folder n),
             map (\<lambda>i. snd (projr (unit_lifetime loadmat folder i))) (found_units loadmat folder n))"
    by (simp add: extract_lifetimes_from_folder_def found_units_def)
next
  assume h: "1 \<le> i \<and> i \<le> n \<and> (\<forall>j\<in>set [1..i - 1]. no_other_failure loadmat folder j)
        \<and> unit_lifetime loadmat folder i = Inl e \<and> e \<noteq> FileNotFoundError"
  then have split: "[1..n] = [1..i - 1] @ i # [i + 1..n]"
    by (simp add: upto_split3)
  from h have pre: "\<forall>j\<in>set [1..i - 1]. no_other_failure loadmat folder j"
    and fails: "unit_lifetime loadmat folder i = Inl e" and other: "e \<noteq> FileNotFoundError"
    by blast+
  from extract_loop_propagates [OF pre fails other, of "[i + 1..n]" "[]" "[]"]
  show "extract_lifetimes_from_folder loadmat folder n = Inl e"
    by (simp add: extract_lifetimes_from_folder_def split)
next
  assume h: "unit_lifetime loadmat folder 1 = Inr (l1, c1)
        \<and> unit_lifetime loadmat folder 2 = Inr (l2, c2)
        \<and> loadmat (file_path_of folder 3) = Inl FileNotFoundError
        \<and> unit_lifetime loadmat folder 4 = Inr (l4, c4)
        \<and> loadmat (file_path_of folder 5) = Inl FileNotFoundError"
  then have u: "unit_lifetime loadmat folder 1 = Inr (l1, c1)"
      "unit_lifetime loadmat folder 2 = Inr (l2, c2)"
      "unit_lifetime loadmat folder 3 = Inl FileNotFoundError"
      "unit_lifetime loadmat folder 4 = Inr (l4, c4)"
      "unit_lifetime loadmat folder 5 = Inl FileNotFoundError"
    by (simp_all add: unit_lifetime_not_found)
  show "extract_lifetimes_from_folder loadmat folder 5 = Inr ([l1, l2, l4], [c1, c2, c4])"
    unfolding extract_lifetimes_from_folder_def upto_1_5 extract_loop_Cons u
    by simp
qed

theorem extract_lifetimes_skips_missing_only_witness:
  "extract_lifetimes_from_folder example_loadmat ''data'' 5 = Inr ([2, 1, 2], [2, 3, 1])
   \<and> found_units example_loadmat ''data'' 5 = [1, 2, 4]
   \<and> extract_lifetimes_from_folder example_loadmat ''data'' 6 = Inl KeyError"
proof -
  have ok5: "\<forall>i\<in>set [1..5]. no_other_failure example_loadmat ''data'' i"
    by (simp add: upto_1_5 no_other_failure_def example_units)
  have found: "found_units example_loadmat ''data'' 5 = [1, 2, 4]"
    by (simp add: found_units_def upto_1_5 example_paths example_loadmat_def)
  have general: "extract_lifetimes_from_folder example_loadmat ''data'' 5 = Inr ([2, 1, 2], [2, 3, 1])"
    using extract_lifetimes_skips_missing_only [of 5 example_loadmat "''data''"] ok5
    by (simp add: found example_units)
  have example: "extract_lifetimes_from_folder example_loadmat ''data'' 5 = Inr ([2, 1, 2], [2, 3, 1])"
    using extract_lifetimes_skips_missing_only [of _ example_loadmat "''data''" _ _ 2 2 1 3 2 1]
    by (simp add: example_units example_paths example_loadmat_def)
  have "(1::int) \<le> 6 \<and> (6::int) \<le> 6 \<and> (\<forall>j\<in>set [1..6 - 1]. no_other_failure example_loadmat ''data'' j)
          \<and> unit_lifetime example_loadmat ''data'' 6 = Inl KeyError \<and> KeyError \<noteq> FileNotFoundError"
    using ok5 by (simp add: example_units)
  with extract_lifetimes_skips_missing_only [of 6 example_loadmat "''data''" 6 KeyError]
  have "extract_lifetimes_from_folder example_loadmat ''data'' 6 = Inl KeyError"
    by blast
  with general example found show ?thesis
    by simp
qed

subsection \<open>bayesian\_update\<close>

text \<open>
  Claim C6. For all inputs, \<open>bayesian_update(prior_alpha, prior_beta, successes, trials)\<close>
  returns exactly the pair \<open>(prior_alpha + successes, prior_beta + trials - successes)\<close>;
  in particular \<open>bayesian_update(1, 1, 7, 10)\<close> returns \<open>(8, 4)\<close>.
\<close>

theorem bayesian_update_result:
  "bayesian_update a b s n = (a + s, b + n - s) \<and> bayesian_update (1::int) 1 7 10 = (8, 4)"
  by (simp add: bayesian_update_def)

text \<open>
  Claim C5, as stated: for all numbers, feeding the posterior pair of
  \<open>bayesian_update(a, b, s, n)\<close> in as the prior of a second update with \<open>(s2, n2)\<close> gives
  exactly the pair of \<open>bayesian_update(a, b, s + s2, n + n2)\<close>. It fails for Python floats:
  with both priors \<open>0.1\<close>, the counts \<open>(1, 1)\<close> and then \<open>(0, 3)\<close>, the two updates give
  \<open>(1.1, 3.1)\<close> and the combined one \<open>(1.1, 3.0999999999999996)\<close>.
\<close>

theorem bayesian_update_float_counterexample:
  "(case bayesian_update (Float64 (py_float (1 / 10))) (Float64 (py_float (1 / 10)))
           (Float64 (Finite 1)) (Float64 (Finite 1)) of
      (a', b') \<Rightarrow> bayesian_update a' b' (Float64 (Finite 0)) (Float64 (Finite 3)))
     = (Float64 (Finite (2476979795053773 / 2251799813685248)),
        Float64 (Finite (6980579422424269 / 2251799813685248)))
   \<and> bayesian_update (Float64 (py_float (1 / 10))) (Float64 (py_float (1 / 10)))
         (Float64 (Finite (1 + 0))) (Float64 (Finite (1 + 3)))
     = (Float64 (Finite (2476979795053773 / 2251799813685248)),
        Float64 (Finite (1745144855606067 / 562949953421312)))
   \<and> (case bayesian_update (Float64 (py_float (1 / 10))) (Float64 (py_float (1 / 10)))
           (Float64 (Finite 1)) (Float64 (Finite 1)) of
      (a', b') \<Rightarrow> bayesian_update a' b' (Float64 (Finite 0)) (Float64 (Finite 3)))
     \<noteq> bayesian_update (Float64 (py_float (1 / 10))) (Float64 (py_float (1 / 10)))
         (Float64 (Finite (1 + 0))) (Float64 (Finite (1 + 3)))"
  by code_simp

text \<open>
  Claim C5, amended. In exact arithmetic, that is for numbers of any commutative additive
  group (Python integers, fractions, the reals), feeding the posterior pair of
  \<open>bayesian_update(a, b, s, n)\<close> in as the prior of a second update with \<open>(s2, n2)\<close> gives
  exactly the pair of the single call \<open>bayesian_update(a, b, s + s2, n + n2)\<close>.
\<close>

theorem bayesian_update_additive:
  fixes a b s n s2 n2 :: "'a::ab_group_add"
  shows "(case bayesian_update a b s n of (a', b') \<Rightarrow> bayesian_update a' b' s2 n2)
           = bayesian_update a b (s + s2) (n + n2)"
  by (simp add: bayesian_update_def algebra_simps)

text \<open>
  Claim C10. \<open>bayesian_update\<close> validates nothing: for every input the result is the same
  arithmetic pair, also when \<open>successes < 0\<close>, \<open>successes > trials\<close> or a prior is not
  positive, so that a posterior parameter can be non-positive. The function has no
  \<^verbatim>\<open>raise\<close> and no check, so its model has no error branch.
\<close>

theorem bayesian_update_no_validation:
  "bayesian_update a b s n = (a + s, b + n - s)
   \<and> bayesian_update (1::int) 1 (- 3) 2 = (- 2, 6)
   \<and> bayesian_update (1::int) 1 5 2 = (6, - 2)
   \<and> bayesian_update (- 1::int) 0 0 0 = (- 1, 0)"
  by (simp add: bayesian_update_def)

subsection \<open>fit\_weibull\_distribution\<close>

text \<open>
  Claim C8, as stated: \<open>fit_weibull_distribution(sample)\<close> fails with a fit error whenever
  the sample is empty or contains a value that is not positive. The function checks
  nothing itself: with a fit routine that returns parameters for such a sample, it returns
  them.
\<close>

theorem fit_weibull_distribution_counterexample:
  "(\<exists>x\<in>set [Finite 1, Finite 2, Finite (- 3)]. \<not> np_less (Finite 0) x)
   \<and> fit_weibull_distribution penalising_fit [Finite 1, Finite 2, Finite (- 3)]
       = Inr (Finite 2, Finite 3)"
  by (simp add: fit_weibull_distribution_def penalising_fit_def)

text \<open>
  Claim C8, amended. \<open>fit_weibull_distribution(sample)\<close> calls
  \<^verbatim>\<open>weibull_min.fit(sample, floc=0)\<close> and checks nothing itself. It fails exactly when
  that call raises, with the same exception, propagated and not caught; otherwise it
  returns the shape and the scale of the triple the call returns, the location having
  been fixed at zero.
\<close>

theorem fit_weibull_distribution_forwards:
  "(weibull_min_fit data (Finite 0) = Inl e \<longrightarrow>
      fit_weibull_distribution weibull_min_fit data = Inl e)
   \<and> (weibull_min_fit data (Finite 0) = Inr (k, loc, scale) \<longrightarrow>
      fit_weibull_distribution weibull_min_fit data = Inr (k, scale))
   \<and> (isl (fit_weibull_distribution weibull_min_fit data) \<longleftrightarrow> isl (weibull_min_fit data (Finite 0)))"
  by (auto simp: fit_weibull_distribution_def split: sum.splits)

theorem fit_weibull_distribution_forwards_witness:
  "fit_weibull_distribution rejecting_fit [] = Inl (OtherError ''FitError'')
   \<and> fit_weibull_distribution rejecting_fit [Finite 1, Finite 2, Finite (- 3)] = Inl (OtherError ''FitError'')
   \<and> fit_weibull_distribution rejecting_fit [Finite 1, Finite 2, Finite 3] = Inr (Finite 2, Finite 3)"
proof -
  have a: "rejecting_fit [] (Finite 0) = Inl (OtherError ''FitError'')"
    by (simp add: rejecting_fit_def)
  have b: "rejecting_fit [Finite 1, Finite 2, Finite (- 3)] (Finite 0) = Inl (OtherError ''FitError'')"
    by (simp add: rejecting_fit_def)
  have c: "rejecting_fit [Finite 1, Finite 2, Finite 3] (Finite 0) = Inr (Finite 2, Finite 0, Finite 3)"
    by (simp add: rejecting_fit_def)
  from fit_weibull_distribution_forwards [of rejecting_fit "[]" "OtherError ''FitError''"] a
  have "fit_weibull_distribution rejecting_fit [] = Inl (OtherError ''FitError'')"
    by blast
  moreover
  from fit_weibull_distribution_forwards [of rejecting_fit "[Finite 1, Finite 2, Finite (- 3)]" "OtherError ''FitError''"] b
  have "fit_weibull_distribution rejecting_fit [Finite 1, Finite 2, Finite (- 3)] = Inl (OtherError ''FitError'')"
    by blast
  moreover
  from fit_weibull_distribution_forwards [of rejecting_fit "[Finite 1, Finite 2, Finite 3]" _ "Finite 2" "Finite 0" "Finite 3"] c
  have "fit_weibull_distribution rejecting_fit [Finite 1, Finite 2, Finite 3] = Inr (Finite 2, Finite 3)"
    by blast
  ultimately show ?thesis
    by blast
qed

subsection \<open>confidence\_interval\_proportion\<close>

lemma p_hat_variance_pos:
  fixes s n :: int
  assumes "0 < s" and "s < n"
  shows "0 < (real_of_int s / real_of_int n) * (1 - real_of_int s / real_of_int n) / real_of_int n"
proof -
  from assms have n: "0 < real_of_int n" by simp
  from assms n have p0: "0 < real_of_int s / real_of_int n" by simp
  from assms n have "real_of_int s / real_of_int n < 1" by simp
  then have "0 < 1 - real_of_int s / real_of_int n" by simp
  with p0 have prod: "0 < (real_of_int s / real_of_int n) * (1 - real_of_int s / real_of_int n)"
    by (rule mult_pos_pos)
  from divide_pos_pos [OF prod n] show ?thesis .
qed

text \<open>
  Claim C7. For \<open>0 < successes < trials\<close> and the default confidence 0.95, the pair
  \<open>(lower, upper)\<close> returned by \<open>confidence_interval_proportion\<close> brackets the point
  estimate: \<open>lower \<le> successes / trials \<le> upper\<close>. The one fact used of
  \<^verbatim>\<open>norm.ppf\<close> is that the quantile at 0.975 is a finite non-negative number (it is about
  1.96).
\<close>

theorem confidence_interval_brackets:
  assumes "0 < successes" and "successes < trials"
    and ppf: "norm_ppf (1 - (1 - 95 / 100) / 2) = Finite z" and z: "0 \<le> z"
  shows "\<exists>lower upper.
           confidence_interval_proportion norm_ppf successes trials (95 / 100)
             = Inr (Finite lower, Finite upper)
           \<and> lower \<le> real_of_int successes / real_of_int trials
           \<and> real_of_int successes / real_of_int trials \<le> upper"
proof -
  let ?p = "real_of_int successes / real_of_int trials"
  let ?v = "?p * (1 - ?p) / real_of_int trials"
  from assms(1,2) have nz: "trials \<noteq> 0" by simp
  from p_hat_variance_pos [OF assms(1,2)] have v: "0 < ?v" .
  then have se: "np_sqrt (Finite ?v) = Finite (sqrt ?v)" by simp
  from z have w: "0 \<le> z * sqrt ?v"
    using v by (intro mult_nonneg_nonneg) simp_all
  have "confidence_interval_proportion norm_ppf successes trials (95 / 100)
          = Inr (Finite (?p - z * sqrt ?v), Finite (?p + z * sqrt ?v))"
    unfolding confidence_interval_proportion_def Let_def ppf se
    using nz by (simp add: np_sub_def)
  moreover from w have "?p - z * sqrt ?v \<le> ?p" by simp
  moreover from w have "?p \<le> ?p + z * sqrt ?v" by simp
  ultimately show ?thesis by blast
qed

theorem confidence_interval_brackets_witness:
  "\<exists>lower upper.
     confidence_interval_proportion (\<lambda>q. Finite (196 / 100)) 7 10 (95 / 100)
       = Inr (Finite lower, Finite upper)
     \<and> lower \<le> real_of_int 7 / real_of_int 10
     \<and> real_of_int 7 / real_of_int 10 \<le> upper"
  by (rule confidence_interval_brackets [of 7 10 "\<lambda>q. Finite (196 / 100)" "196 / 100"]) simp_all

subsection \<open>hypothesis\_test\_proportion\<close>

lemma np_div_zero_not_finite: "\<not> is_finite (np_div (Finite a) (Finite 0))"
  by (simp add: signed_inf_def)

text \<open>
  Claim C3, as stated: for \<open>trials > 0\<close> and \<open>p0\<close> equal to 0 or 1 the division by zero
  surfaces as an error and no infinite or NaN z-statistic is substituted. It fails:
  \<open>hypothesis_test_proportion(60, 100, 0.0)\<close> returns normally, with an infinite
  z-statistic.
\<close>

theorem hypothesis_test_zero_se_counterexample:
  "hypothesis_test_proportion step_cdf 60 100 0 (5 / 100) ''greater''
     = Inr \<lparr>z_statistic = PosInf, p_value = Finite 0, reject_H0 = True\<rparr>"
  by (simp add: hypothesis_test_proportion_def Let_def signed_inf_def np_sub_def)

text \<open>
  Claim C3, amended. For \<open>trials > 0\<close> and \<open>p0\<close> equal to 0 or 1,
  \<open>hypothesis_test_proportion\<close> raises no error: the standard error is 0, NumPy's division
  gives an infinite or NaN z-statistic, and the function returns a result that carries it.
\<close>

theorem hypothesis_test_zero_se_no_error:
  assumes "0 < trials" and "p0 = 0 \<or> p0 = 1"
  shows "\<exists>r. hypothesis_test_proportion norm_cdf successes trials p0 alpha alternative = Inr r
             \<and> \<not> is_finite (z_statistic r)"
proof -
  from assms(2) have zero: "p0 * (1 - p0) / real_of_int trials = 0"
    by auto
  have se: "np_sqrt (Finite (p0 * (1 - p0) / real_of_int trials)) = Finite 0"
    unfolding zero by simp
  from assms(1) have nz: "trials \<noteq> 0"
    by simp
  show ?thesis
    unfolding hypothesis_test_proportion_def Let_def se
    using nz np_div_zero_not_finite by simp
qed

theorem hypothesis_test_zero_se_no_error_witness:
  "\<exists>r. hypothesis_test_proportion step_cdf 60 100 1 (5 / 100) ''less'' = Inr r
        \<and> \<not> is_finite (z_statistic r)"
  by (rule hypothesis_test_zero_se_no_error) simp_all

end
